theory Spec2Isabelle
  imports Complex_Main
begin

section \<open>Values, errors and library functions\<close>

text \<open>
  The training pipeline \<^verbatim>\<open>ml_training/train_models.py\<close> is embedded function by function.
  Python floats are idealised as \<^typ>\<open>real\<close>, Python ints as \<^typ>\<open>int\<close> (counts) and
  \<^typ>\<open>nat\<close> (lengths). A numpy matrix is the list of its rows, a numpy vector a list.
  Every exception the code can raise in the modelled part is a value of \<open>error\<close>,
  returned on the left of a sum.
\<close>

datatype error = ZeroDivisionError | ValueError

text \<open>Python's true division \<^verbatim>\<open>a / b\<close> on numbers: it raises when the divisor is zero.\<close>

definition py_div :: "real \<Rightarrow> real \<Rightarrow> error + real" where
  "py_div a b = (if b = 0 then Inl ZeroDivisionError else Inr (a / b))"

text \<open>\<^verbatim>\<open>np.clip(a, a_min, a_max)\<close> on one element.\<close>

definition clip :: "real \<Rightarrow> real \<Rightarrow> real \<Rightarrow> real" where
  "clip a a_min a_max = min (max a a_min) a_max"

text \<open>
  Strings are lists of 8-bit characters, read as the code points 0 to 255 of a Python
  \<^verbatim>\<open>str\<close>. \<open>isspace\<close> is \<^verbatim>\<open>str.isspace\<close> on that range (tab to carriage return, the
  separators 28 to 31, space, NEL and no-break space); \<open>str_lower\<close> is \<^verbatim>\<open>str.lower\<close>
  (the letters A to Z and the accented capitals 192 to 222 other than the
  multiplication sign move up by 32).
\<close>

definition isspace :: "char \<Rightarrow> bool" where
  "isspace c =
     (let n = (of_char c :: nat)
      in (9 \<le> n \<and> n \<le> 13) \<or> (28 \<le> n \<and> n \<le> 32) \<or> n = 133 \<or> n = 160)"

definition lower_char :: "char \<Rightarrow> char" where
  "lower_char c =
     (let n = (of_char c :: nat)
      in if (65 \<le> n \<and> n \<le> 90) \<or> (192 \<le> n \<and> n \<le> 222 \<and> n \<noteq> 215)
         then char_of (n + 32) else c)"

definition str_lower :: "string \<Rightarrow> string" where
  "str_lower s = map lower_char s"

text \<open>
  \<^verbatim>\<open>s.split()\<close> without arguments: the maximal runs of non-whitespace characters, in
  order. \<open>cur\<close> is the word being read.
\<close>

fun split_from :: "string \<Rightarrow> string \<Rightarrow> string list" where
  "split_from cur [] = (if cur = [] then [] else [cur])"
| "split_from cur (c # cs) =
     (if isspace c
      then (if cur = [] then split_from [] cs else cur # split_from [] cs)
      else split_from (cur @ [c]) cs)"

definition str_split :: "string \<Rightarrow> string list" where
  "str_split s = split_from [] s"

text \<open>\<^verbatim>\<open>s in t\<close> on strings: \<open>s\<close> occurs in \<open>t\<close> as a contiguous substring.\<close>

fun str_in :: "string \<Rightarrow> string \<Rightarrow> bool" where
  "str_in s [] = (s = [])"
| "str_in s (c # cs) = (take (length s) (c # cs) = s \<or> str_in s cs)"

section \<open>Data model\<close>

record FeatureVector =
  title_similarity :: real
  description_similarity :: real
  keyword_overlap :: real
  category_match :: real
  timing_match :: real
  sources_match :: real
  alignment_score :: real
  volume_ratio :: real
  price_correlation :: real
  length_ratio :: real
  avg_word_count :: real

definition to_array :: "FeatureVector \<Rightarrow> real list" where
  "to_array self =
     [title_similarity self / 100,
      description_similarity self / 100,
      keyword_overlap self / 100,
      category_match self,
      timing_match self,
      sources_match self,
      alignment_score self / 100,
      volume_ratio self,
      price_correlation self,
      length_ratio self,
      avg_word_count self / 20]"

text \<open>
  One side of a market pair, as \<^verbatim>\<open>extract_features\<close> reads it: \<^verbatim>\<open>title\<close> and
  \<^verbatim>\<open>description\<close> are indexed directly, the other keys are read with \<^verbatim>\<open>.get\<close> and a
  default, so they may be absent.
\<close>

record market =
  title :: string
  description :: string
  volume_usd :: "real option"
  final_price_yes :: "real option"
  source :: "string option"

record market_pair =
  kalshi :: market
  polymarket :: market
  matched :: bool

section \<open>Feature extraction\<close>

text \<open>
  The named steps of \<^verbatim>\<open>extract_features\<close>. \<open>side_text\<close> is \<^verbatim>\<open>k_text\<close> (and \<^verbatim>\<open>p_text\<close>):
  title, one space, description, lowercased.
\<close>

definition side_text :: "market \<Rightarrow> string" where
  "side_text m = str_lower (title m @ '' '' @ description m)"

text \<open>
  \<^verbatim>\<open>len(k_words & p_words) / max(len(k_words), len(p_words)) * 100\<close> on the two word
  sets. The division is Python's, on two ints.
\<close>

definition calc_keyword_overlap :: "string set \<Rightarrow> string set \<Rightarrow> error + real" where
  "calc_keyword_overlap k_words p_words =
     (case py_div (real (card (k_words \<inter> p_words))) (real (max (card k_words) (card p_words))) of
        Inl e \<Rightarrow> Inl e
      | Inr q \<Rightarrow> Inr (q * 100))"

text \<open>\<^verbatim>\<open>min(k_len, p_len) / max(k_len, p_len)\<close> on the lengths of the two texts.\<close>

definition calc_length_ratio :: "string \<Rightarrow> string \<Rightarrow> error + real" where
  "calc_length_ratio k_text p_text =
     (let k_len = length k_text; p_len = length p_text
      in py_div (real (min k_len p_len)) (real (max k_len p_len)))"

text \<open>\<^verbatim>\<open>min(k_vol, p_vol) / max(k_vol, p_vol)\<close>, each volume defaulting to 1.\<close>

definition calc_volume_ratio :: "market \<Rightarrow> market \<Rightarrow> error + real" where
  "calc_volume_ratio kal poly =
     (let k_vol = (case volume_usd kal of None \<Rightarrow> 1 | Some v \<Rightarrow> v);
          p_vol = (case volume_usd poly of None \<Rightarrow> 1 | Some v \<Rightarrow> v)
      in py_div (min k_vol p_vol) (max k_vol p_vol))"

text \<open>\<^verbatim>\<open>1 - abs(k_price - p_price)\<close>, each price defaulting to 0.5.\<close>

definition calc_price_correlation :: "market \<Rightarrow> market \<Rightarrow> real" where
  "calc_price_correlation kal poly =
     (let k_price = (case final_price_yes kal of None \<Rightarrow> 0.5 | Some p \<Rightarrow> p);
          p_price = (case final_price_yes poly of None \<Rightarrow> 0.5 | Some p \<Rightarrow> p)
      in 1 - \<bar>k_price - p_price\<bar>)"

definition common_sources :: "string list" where
  "common_sources = [''ap'', ''fox'', ''nbc'', ''official'', ''associated press'']"

definition calc_sources_match :: "market \<Rightarrow> market \<Rightarrow> real" where
  "calc_sources_match kal poly =
     (let k_source = str_lower (case source kal of None \<Rightarrow> [] | Some s \<Rightarrow> s);
          p_source = str_lower (case source poly of None \<Rightarrow> [] | Some s \<Rightarrow> s)
      in if list_ex (\<lambda>s. str_in s k_source \<and> str_in s p_source) common_sources then 1 else 0)"

text \<open>
  \<^verbatim>\<open>extract_features(pair)\<close>. The three divisions are evaluated in the order of the
  source, and the first one that raises ends the call.
\<close>

definition extract_features :: "market_pair \<Rightarrow> error + FeatureVector" where
  "extract_features pair =
     (let kal = kalshi pair; poly = polymarket pair;
          k_text = side_text kal; p_text = side_text poly;
          k_words = set (str_split k_text); p_words = set (str_split p_text)
      in case calc_keyword_overlap k_words p_words of
           Inl e \<Rightarrow> Inl e
         | Inr keyword_overlap' \<Rightarrow>
        (case calc_length_ratio k_text p_text of
           Inl e \<Rightarrow> Inl e
         | Inr length_ratio' \<Rightarrow>
        (case calc_volume_ratio kal poly of
           Inl e \<Rightarrow> Inl e
         | Inr volume_ratio' \<Rightarrow>
             Inr \<lparr>title_similarity = 37.5,
                  description_similarity = 50.0,
                  keyword_overlap = keyword_overlap',
                  category_match = 1,
                  timing_match = 1,
                  sources_match = calc_sources_match kal poly,
                  alignment_score = 82.0,
                  volume_ratio = volume_ratio',
                  price_correlation = calc_price_correlation kal poly,
                  length_ratio = length_ratio',
                  avg_word_count = real (length (str_split (title kal)))\<rparr>)))"

text \<open>
  \<^verbatim>\<open>prepare_training_data(pairs)\<close>: one normalised row and one label per pair, in order.
  A pair on which extraction raises ends the loop with that error.
\<close>

fun prepare_training_data :: "market_pair list \<Rightarrow> error + (real list list \<times> int list)" where
  "prepare_training_data [] = Inr ([], [])"
| "prepare_training_data (pair # pairs) =
     (case extract_features pair of
        Inl e \<Rightarrow> Inl e
      | Inr features \<Rightarrow>
          (case prepare_training_data pairs of
             Inl e \<Rightarrow> Inl e
           | Inr (X, y) \<Rightarrow>
               Inr (to_array features # X, (if matched pair then 1 else 0) # y)))"

section \<open>Augmentation\<close>

text \<open>
  \<^verbatim>\<open>np.random.normal(0, 0.05, X.shape)\<close> is a draw from the process-wide generator. The
  model takes the drawn values as a parameter: \<open>noise k i j\<close> is the value drawn in
  iteration \<open>k\<close> of the loop for row \<open>i\<close>, column \<open>j\<close>. Nothing is assumed about it, so
  every statement below holds for every outcome of the generator.
\<close>

type_synonym noise = "nat \<Rightarrow> nat \<Rightarrow> nat \<Rightarrow> real"

text \<open>\<^verbatim>\<open>np.clip(X + noise, 0, 1)\<close> for the draw of iteration \<open>k\<close>.\<close>

definition X_noisy :: "noise \<Rightarrow> nat \<Rightarrow> real list list \<Rightarrow> real list list" where
  "X_noisy nz k X =
     map (\<lambda>(i, row). map (\<lambda>(j, v). clip (v + nz k i j) 0 1) (zip [0..<length row] row))
       (zip [0..<length X] X)"

text \<open>
  The loop \<^verbatim>\<open>for _ in range(factor - 1)\<close>: \<open>n\<close> iterations remain, \<open>k\<close> have run,
  \<open>X_aug\<close> and \<open>y_aug\<close> are the two lists being appended to.
\<close>

fun augment_loop ::
  "noise \<Rightarrow> real list list \<Rightarrow> int list \<Rightarrow> nat \<Rightarrow> nat
   \<Rightarrow> real list list list \<times> int list list \<Rightarrow> real list list list \<times> int list list" where
  "augment_loop nz X y k 0 acc = acc"
| "augment_loop nz X y k (Suc n) (X_aug, y_aug) =
     augment_loop nz X y (Suc k) n (X_aug @ [X_noisy nz k X], y_aug @ [y])"

text \<open>
  \<^verbatim>\<open>augment_training_data(X, y, factor)\<close>; \<^verbatim>\<open>np.vstack\<close> of matrices and \<^verbatim>\<open>np.hstack\<close> of
  vectors are both concatenation. \<^verbatim>\<open>range(factor - 1)\<close> is empty when \<open>factor \<le> 1\<close>.
\<close>

definition augment_training_data ::
  "noise \<Rightarrow> real list list \<Rightarrow> int list \<Rightarrow> int \<Rightarrow> real list list \<times> int list" where
  "augment_training_data nz X y factor =
     (case augment_loop nz X y 0 (nat (factor - 1)) ([X], [y]) of
        (X_aug, y_aug) \<Rightarrow> (concat X_aug, concat y_aug))"

section \<open>Weight estimation\<close>

text \<open>
  \<^verbatim>\<open>estimate_weights_simple(X, y)\<close>: the calibration weights, in feature order, and the
  default intercept.
\<close>

definition estimate_weights_simple :: "real list list \<Rightarrow> int list \<Rightarrow> real list \<times> real" where
  "estimate_weights_simple X y =
     ([0.12, 0.08, 0.25, 0.15, 0.10, 0.12, 0.08, 0.03, 0.03, 0.02, 0.02], - 0.3)"

text \<open>
  The two scikit-learn estimators are outside the repository. \<open>lr_fit\<close> stands for
  fitting \<^verbatim>\<open>LogisticRegression(max_iter=1000, random_state=42)\<close> and reading
  \<^verbatim>\<open>coef_[0], intercept_[0]\<close>; \<open>rf_fit\<close> stands for fitting the random forest and
  reading its importances and the cross-validated accuracy. Both may raise.
  \<open>sklearn_available\<close> is the module flag \<^verbatim>\<open>SKLEARN_AVAILABLE\<close>.
\<close>

record rf_result =
  feature_importances :: "real list"
  accuracy_cv :: "real option"

type_synonym lr_fit = "real list list \<Rightarrow> int list \<Rightarrow> error + (real list \<times> real)"
type_synonym rf_fit = "real list list \<Rightarrow> int list \<Rightarrow> error + rf_result"

definition train_logistic_weights ::
  "bool \<Rightarrow> lr_fit \<Rightarrow> real list list \<Rightarrow> int list \<Rightarrow> error + (real list \<times> real)" where
  "train_logistic_weights sklearn_available fit X y =
     (if \<not> sklearn_available then Inr (estimate_weights_simple X y) else fit X y)"

definition train_random_forest ::
  "bool \<Rightarrow> rf_fit \<Rightarrow> real list list \<Rightarrow> int list \<Rightarrow> error + rf_result" where
  "train_random_forest sklearn_available fit X y =
     (if \<not> sklearn_available
      then (case estimate_weights_simple X y of
              (weights, _) \<Rightarrow> Inr \<lparr>feature_importances = weights, accuracy_cv = None\<rparr>)
      else fit X y)"

section \<open>Evaluation\<close>

record confusion =
  tp :: int
  fp :: int
  fn :: int
  tn :: int

text \<open>
  The result of \<^verbatim>\<open>evaluate_model\<close>. \<open>accuracy\<close> is \<open>None\<close> where numpy gives \<^verbatim>\<open>nan\<close>: the
  mean of an empty array.
\<close>

record metrics =
  accuracy :: "real option"
  precision :: real
  recall :: real
  f1_score :: real
  confusion_matrix :: confusion

definition sigmoid :: "real \<Rightarrow> real" where
  "sigmoid x = 1 / (1 + exp (- clip x (- 500) 500))"

definition dot :: "real list \<Rightarrow> real list \<Rightarrow> real" where
  "dot row weights = sum_list (map (\<lambda>(a, b). a * b) (zip row weights))"

text \<open>
  \<^verbatim>\<open>X @ weights + intercept\<close>: numpy raises ValueError unless every row of the matrix
  is as long as the weight vector.
\<close>

definition scores_of :: "real list list \<Rightarrow> real list \<Rightarrow> real \<Rightarrow> error + real list" where
  "scores_of X weights intercept =
     (if list_all (\<lambda>row. length row = length weights) X
      then Inr (map (\<lambda>row. dot row weights + intercept) X)
      else Inl ValueError)"

text \<open>
  numpy's broadcasting of the prediction vector against the label vector, as the
  elementwise \<^verbatim>\<open>==\<close> and \<^verbatim>\<open>&\<close> of \<^verbatim>\<open>evaluate_model\<close> do it: equal lengths pair up, a
  vector of length one is repeated, any other two lengths raise.
\<close>

definition broadcast :: "int list \<Rightarrow> int list \<Rightarrow> error + (int \<times> int) list" where
  "broadcast predictions y =
     (if length predictions = length y then Inr (zip predictions y)
      else if length predictions = 1 then Inr (map (\<lambda>l. (hd predictions, l)) y)
      else if length y = 1 then Inr (map (\<lambda>p. (p, hd y)) predictions)
      else Inl ValueError)"

text \<open>\<^verbatim>\<open>((predictions == a) & (y == b)).sum()\<close> on the broadcast pairs.\<close>

definition count_where :: "int \<Rightarrow> int \<Rightarrow> (int \<times> int) list \<Rightarrow> int" where
  "count_where a b ps = int (length (filter (\<lambda>(p, l). p = a \<and> l = b) ps))"

text \<open>\<^verbatim>\<open>(sigmoid(scores) >= 0.5).astype(int)\<close>.\<close>

definition predictions_of :: "real list \<Rightarrow> int list" where
  "predictions_of scores = map (\<lambda>s. if sigmoid s \<ge> 0.5 then 1 else 0) scores"

text \<open>
  The metrics of \<^verbatim>\<open>evaluate_model\<close>, computed from the broadcast pairs of prediction and
  label. Each division stands behind the guard the source gives it.
\<close>

definition metrics_of :: "(int \<times> int) list \<Rightarrow> metrics" where
  "metrics_of ps =
     (let accuracy' =
            (if ps = [] then None
             else Some (real (length (filter (\<lambda>(p, l). p = l) ps)) / real (length ps) * 100));
          tp' = count_where 1 1 ps;
          fp' = count_where 1 0 ps;
          fn' = count_where 0 1 ps;
          tn' = count_where 0 0 ps;
          precision' =
            (if tp' + fp' > 0 then real_of_int tp' / real_of_int (tp' + fp') * 100 else 0);
          recall' =
            (if tp' + fn' > 0 then real_of_int tp' / real_of_int (tp' + fn') * 100 else 0);
          f1 = (if precision' + recall' > 0
                then 2 * precision' * recall' / (precision' + recall') else 0)
      in \<lparr>accuracy = accuracy', precision = precision', recall = recall', f1_score = f1,
          confusion_matrix = \<lparr>tp = tp', fp = fp', fn = fn', tn = tn'\<rparr>\<rparr>)"

definition evaluate_model ::
  "real list list \<Rightarrow> int list \<Rightarrow> real list \<Rightarrow> real \<Rightarrow> error + metrics" where
  "evaluate_model X y weights intercept =
     (case scores_of X weights intercept of
        Inl e \<Rightarrow> Inl e
      | Inr scores \<Rightarrow>
          (case broadcast (predictions_of scores) y of
             Inl e \<Rightarrow> Inl e
           | Inr ps \<Rightarrow> Inr (metrics_of ps)))"

section \<open>The pipeline\<close>

record matching_model =
  model_weights :: "real list"
  model_intercept :: real
  model_metrics :: metrics

record resolution_model =
  importances :: "real list"
  resolution_intercept :: real

record training_info =
  n_samples :: nat
  n_augmented :: nat
  sklearn_flag :: bool

record ModelArtifact =
  matching :: matching_model
  resolution :: resolution_model
  feature_names :: "string list"
  info :: training_info

text \<open>
  \<^verbatim>\<open>main()\<close>, as a function of what it reads: the content of the data file (\<open>None\<close> when
  the file does not exist), the module flag, the two estimators and the generator's
  draws. It returns \<open>Inr None\<close> where the source prints the diagnostic and returns,
  \<open>Inr (Some output)\<close> with the dictionary it dumps, and \<open>Inl\<close> where an exception ends
  the run. For an empty list of pairs \<^verbatim>\<open>np.array([])\<close> has shape \<^verbatim>\<open>(0,)\<close>, on which the
  estimator's fit or the product \<^verbatim>\<open>X @ weights\<close> raises ValueError: the first branch
  after loading.
\<close>

definition main ::
  "market_pair list option \<Rightarrow> bool \<Rightarrow> lr_fit \<Rightarrow> rf_fit \<Rightarrow> noise \<Rightarrow> error + ModelArtifact option" where
  "main data_file sklearn_available fit_lr fit_rf nz =
     (case data_file of
        None \<Rightarrow> Inr None
      | Some pairs \<Rightarrow>
     (case prepare_training_data pairs of
        Inl e \<Rightarrow> Inl e
      | Inr (X, y) \<Rightarrow>
     (if pairs = [] then Inl ValueError
      else case augment_training_data nz X y 20 of (X_aug, y_aug) \<Rightarrow>
     (case train_logistic_weights sklearn_available fit_lr X_aug y_aug of
        Inl e \<Rightarrow> Inl e
      | Inr (matching_weights, matching_intercept) \<Rightarrow>
     (case evaluate_model X y matching_weights matching_intercept of
        Inl e \<Rightarrow> Inl e
      | Inr metrics' \<Rightarrow>
     (case train_random_forest sklearn_available fit_rf X_aug y_aug of
        Inl e \<Rightarrow> Inl e
      | Inr rf_results \<Rightarrow>
          Inr (Some
            \<lparr>matching = \<lparr>model_weights = matching_weights, model_intercept = matching_intercept,
                          model_metrics = metrics'\<rparr>,
             resolution = \<lparr>importances = feature_importances rf_results,
                            resolution_intercept = - 0.2\<rparr>,
             feature_names =
               [''title_similarity'', ''description_similarity'', ''keyword_overlap'',
                ''category_match'', ''timing_match'', ''sources_match'', ''alignment_score'',
                ''volume_ratio'', ''price_correlation'', ''length_ratio'', ''avg_word_count''],
             info = \<lparr>n_samples = length pairs, n_augmented = length y_aug,
                      sklearn_flag = sklearn_available\<rparr>\<rparr>)))))))"

section \<open>Valid market pairs\<close>

text \<open>
  The validity of a market pair, as the data model states it: a volume that is present
  is not negative, a price that is present lies between 0 and 1. Titles, descriptions
  and sources are arbitrary strings.
\<close>

definition valid_market :: "market \<Rightarrow> bool" where
  "valid_market m =
     ((case volume_usd m of None \<Rightarrow> True | Some v \<Rightarrow> 0 \<le> v) \<and>
      (case final_price_yes m of None \<Rightarrow> True | Some p \<Rightarrow> 0 \<le> p \<and> p \<le> 1))"

definition valid_pair :: "market_pair \<Rightarrow> bool" where
  "valid_pair pair = (valid_market (kalshi pair) \<and> valid_market (polymarket pair))"

section \<open>Example data\<close>

text \<open>Concrete inputs on which the theorems below are instantiated.\<close>

definition empty_market :: market where
  "empty_market =
     \<lparr>title = [], description = [], volume_usd = None, final_price_yes = None,
      source = None\<rparr>"

definition empty_pair :: market_pair where
  "empty_pair = \<lparr>kalshi = empty_market, polymarket = empty_market, matched = True\<rparr>"

definition example_kalshi :: market where
  "example_kalshi =
     \<lparr>title = ''will x win'', description = ''the election'', volume_usd = Some 10,
      final_price_yes = Some 0.9, source = Some ''ap news''\<rparr>"

definition example_polymarket :: market where
  "example_polymarket =
     \<lparr>title = ''x wins election'', description = ''official'', volume_usd = Some 40,
      final_price_yes = Some 0.8, source = Some ''ap''\<rparr>"

definition example_pair :: market_pair where
  "example_pair = \<lparr>kalshi = example_kalshi, polymarket = example_polymarket, matched = True\<rparr>"

definition example_features :: FeatureVector where
  "example_features =
     \<lparr>title_similarity = 37.5, description_similarity = 50, keyword_overlap = 40,
      category_match = 1, timing_match = 1, sources_match = 1, alignment_score = 82,
      volume_ratio = 1 / 4, price_correlation = 9 / 10, length_ratio = 23 / 24,
      avg_word_count = 3\<rparr>"

definition example_noise :: noise where
  "example_noise k i j = (if j = 0 then 1 / 10 else - 1 / 4)"

definition example_X :: "real list list" where
  "example_X = [[1, 0], [0, 1]]"

definition example_y :: "int list" where
  "example_y = [1, 0]"

definition example_weights :: "real list" where
  "example_weights = [- 1, 2]"

definition wordy_market :: market where
  "wordy_market =
     \<lparr>title = ''a a a a a a a a a a a a a a a a a a a a a'', description = [],
      volume_usd = None, final_price_yes = None, source = None\<rparr>"

definition wordy_pair :: market_pair where
  "wordy_pair = \<lparr>kalshi = wordy_market, polymarket = wordy_market, matched = True\<rparr>"

definition wordy_features :: FeatureVector where
  "wordy_features =
     \<lparr>title_similarity = 37.5, description_similarity = 50, keyword_overlap = 100,
      category_match = 1, timing_match = 1, sources_match = 0, alignment_score = 82,
      volume_ratio = 1, price_correlation = 1, length_ratio = 1,
      avg_word_count = 21\<rparr>"

section \<open>Evaluating the model on the example data\<close>

lemmas extract_defs =
  extract_features_def side_text_def str_split_def str_lower_def lower_char_def isspace_def
  calc_keyword_overlap_def calc_length_ratio_def calc_volume_ratio_def
  calc_price_correlation_def calc_sources_match_def common_sources_def py_div_def

lemma extract_example_pair: "extract_features example_pair = Inr example_features"
  by (simp add: extract_defs example_pair_def example_kalshi_def example_polymarket_def
      example_features_def)

lemma length_side_text: "length (side_text m) = length (title m) + 1 + length (description m)"
  by (simp add: side_text_def str_lower_def)

section \<open>The calibration weights\<close>

text \<open>
  Claim C3. Whatever \<open>X\<close> and \<open>y\<close> are, \<open>estimate_weights_simple\<close> returns the same
  eleven weights and the intercept \<open>-0.3\<close>; two calls on different arguments return
  equal results; and the weights are ordered as documented, position by position
  (indices in feature order): keyword_overlap (2) above category_match (3) above
  sources_match (5), equal to title_similarity (0), above timing_match (4) above
  description_similarity (1), equal to alignment_score (6), above volume_ratio (7),
  equal to price_correlation (8), above length_ratio (9), equal to avg_word_count (10).
\<close>

theorem estimate_weights_simple_fixed:
  "estimate_weights_simple X y =
     ([0.12, 0.08, 0.25, 0.15, 0.10, 0.12, 0.08, 0.03, 0.03, 0.02, 0.02], - 0.3)
   \<and> estimate_weights_simple X y = estimate_weights_simple X' y'
   \<and> (case estimate_weights_simple X y of (w, b) \<Rightarrow>
        length w = 11 \<and> b = - 0.3 \<and>
        w ! 2 > w ! 3 \<and> w ! 3 > w ! 5 \<and> w ! 5 = w ! 0 \<and> w ! 0 > w ! 4 \<and> w ! 4 > w ! 1 \<and>
        w ! 1 = w ! 6 \<and> w ! 6 > w ! 7 \<and> w ! 7 = w ! 8 \<and> w ! 8 > w ! 9 \<and> w ! 9 = w ! 10)"
  by (simp add: estimate_weights_simple_def)

text \<open>
  Claim C7. With the estimator library unavailable (\<open>sklearn_available = False\<close>),
  \<open>train_random_forest\<close> returns normally, whatever the absent estimator would do, and
  its feature-importance vector is the weight vector of \<open>estimate_weights_simple\<close> on
  the same arguments; it has eleven components, none of them negative.
\<close>

theorem train_random_forest_fallback:
  "\<exists>r. train_random_forest False fit X y = Inr r
     \<and> feature_importances r = fst (estimate_weights_simple X y)
     \<and> length (feature_importances r) = 11
     \<and> list_all (\<lambda>v. 0 \<le> v) (feature_importances r)"
  by (simp add: train_random_forest_def estimate_weights_simple_def)

section \<open>Feature extraction: the divisions\<close>

text \<open>
  Claim C9. For every pair, each side's text contains the joining space, so its length
  is at least 1; the length-ratio division therefore returns a value \<open>r\<close> instead of
  raising, \<open>r\<close> lies in the half-open interval from 0 (excluded) to 1, and it is the
  \<open>length_ratio\<close> component of every feature vector that \<open>extract_features\<close> returns.
\<close>

theorem length_ratio_defined:
  "1 \<le> length (side_text (kalshi pair)) \<and> 1 \<le> length (side_text (polymarket pair)) \<and>
   (\<exists>r. calc_length_ratio (side_text (kalshi pair)) (side_text (polymarket pair)) = Inr r
        \<and> 0 < r \<and> r \<le> 1
        \<and> (\<forall>fv. extract_features pair = Inr fv \<longrightarrow> length_ratio fv = r))"
  by (auto simp: length_side_text calc_length_ratio_def py_div_def extract_features_def Let_def
      min_def max_def split: sum.splits)

theorem length_ratio_defined_witness:
  "extract_features example_pair = Inr example_features
   \<and> calc_length_ratio (side_text (kalshi example_pair)) (side_text (polymarket example_pair))
       = Inr (23 / 24)
   \<and> length_ratio example_features = 23 / 24"
proof -
  have e: "extract_features example_pair = Inr example_features"
    by (rule extract_example_pair)
  from length_ratio_defined [of example_pair] obtain r where
    r: "calc_length_ratio (side_text (kalshi example_pair)) (side_text (polymarket example_pair))
          = Inr r"
    and fv: "\<forall>fv. extract_features example_pair = Inr fv \<longrightarrow> length_ratio fv = r"
    by blast
  from fv e have "length_ratio example_features = r" by blast
  then have "r = 23 / 24" by (simp add: example_features_def)
  with r e show ?thesis by (simp add: example_features_def)
qed

text \<open>
  Claim C2. Evaluated on the pair whose four title and description fields are empty,
  so that both word sets are empty: \<open>extract_features\<close> ends with ZeroDivisionError,
  raised by the keyword-overlap division \<open>0 / max 0 0\<close>, and returns no feature vector.
\<close>

theorem extract_features_empty_pair:
  "str_split (side_text (kalshi empty_pair)) = []
   \<and> str_split (side_text (polymarket empty_pair)) = []
   \<and> extract_features empty_pair = Inl ZeroDivisionError"
  by (simp add: extract_defs empty_pair_def empty_market_def)

section \<open>Properties of the augmentation\<close>

lemma augment_loop_eq:
  "augment_loop nz X y k n (X_aug, y_aug) =
     (X_aug @ map (\<lambda>i. X_noisy nz i X) [k..<k + n], y_aug @ replicate n y)"
proof (induction n arbitrary: k X_aug y_aug)
  case 0
  show ?case by simp
next
  case (Suc n)
  have "[k..<k + Suc n] = k # [Suc k..<Suc k + n]"
    by (simp add: upt_conv_Cons)
  then show ?case
    by (simp add: Suc.IH replicate_app_Cons_same)
qed

lemma augment_training_data_eq:
  "augment_training_data nz X y factor =
     (X @ concat (map (\<lambda>i. X_noisy nz i X) [0..<nat (factor - 1)]),
      y @ concat (replicate (nat (factor - 1)) y))"
  by (simp add: augment_training_data_def augment_loop_eq)

lemma length_X_noisy: "length (X_noisy nz k X) = length X"
  by (simp add: X_noisy_def)

lemma clip_unit: "0 \<le> clip a 0 1 \<and> clip a 0 1 \<le> 1"
  by (simp add: clip_def)

lemma X_noisy_unit: "row \<in> set (X_noisy nz k X) \<Longrightarrow> v \<in> set row \<Longrightarrow> 0 \<le> v \<and> v \<le> 1"
  by (auto simp: X_noisy_def clip_unit)

lemma length_concat_same:
  "(\<And>M. M \<in> set Ms \<Longrightarrow> length M = n) \<Longrightarrow> length (concat Ms) = length Ms * n"
  by (induction Ms) auto

text \<open>
  Claim C4. For a matrix \<open>X\<close>, a label vector \<open>y\<close> with one label per row and an integer
  \<open>factor\<close> of at least 1, whatever the generator draws: the result has \<open>factor\<close> times
  as many rows and as many labels as \<open>X\<close> has rows; its first rows and labels are \<open>X\<close>
  and \<open>y\<close> themselves; with \<open>factor = 1\<close> the result is \<open>(X, y)\<close>; and every element of
  every later (perturbed) row lies between 0 and 1.
\<close>

theorem augment_training_data_rows:
  assumes "1 \<le> factor" and "length y = length X"
  shows "case augment_training_data nz X y factor of (X_aug, y_aug) \<Rightarrow>
           length X_aug = nat factor * length X
         \<and> length y_aug = nat factor * length X
         \<and> take (length X) X_aug = X
         \<and> take (length X) y_aug = y
         \<and> (factor = 1 \<longrightarrow> X_aug = X \<and> y_aug = y)
         \<and> (\<forall>i. length X \<le> i \<and> i < length X_aug
                \<longrightarrow> (\<forall>v \<in> set (X_aug ! i). 0 \<le> v \<and> v \<le> 1))"
proof -
  let ?N = "concat (map (\<lambda>i. X_noisy nz i X) [0..<nat (factor - 1)])"
  let ?L = "concat (replicate (nat (factor - 1)) y)"
  have f: "nat factor = Suc (nat (factor - 1))" using assms(1) by simp
  have lenN: "length ?N = nat (factor - 1) * length X"
    by (subst length_concat_same [where n = "length X"]) (auto simp: length_X_noisy)
  have lenL: "length ?L = nat (factor - 1) * length X"
    by (subst length_concat_same [where n = "length X"]) (auto simp: assms(2))
  have unit: "\<forall>row \<in> set ?N. \<forall>v \<in> set row. 0 \<le> v \<and> v \<le> 1"
    using X_noisy_unit by fastforce
  have pert: "\<forall>i. length X \<le> i \<and> i < length (X @ ?N)
                \<longrightarrow> (\<forall>v \<in> set ((X @ ?N) ! i). 0 \<le> v \<and> v \<le> 1)"
  proof (intro allI impI)
    fix i assume i: "length X \<le> i \<and> i < length (X @ ?N)"
    then have "(X @ ?N) ! i = ?N ! (i - length X)" by (simp add: nth_append)
    moreover from i have "i - length X < length ?N" by auto
    ultimately have "(X @ ?N) ! i \<in> set ?N" by (metis nth_mem)
    with unit show "\<forall>v \<in> set ((X @ ?N) ! i). 0 \<le> v \<and> v \<le> 1" by blast
  qed
  have one: "factor = 1 \<longrightarrow> ?N = [] \<and> ?L = []" by simp
  show ?thesis
    unfolding augment_training_data_eq prod.case
    using lenN lenL pert one f assms(2) by simp
qed

lemma augment_example:
  "augment_training_data example_noise example_X example_y 3
     = ([[1, 0], [0, 1], [1, 0], [1 / 10, 3 / 4], [1, 0], [1 / 10, 3 / 4]], [1, 0, 1, 0, 1, 0])"
  by (simp add: augment_training_data_eq X_noisy_def example_noise_def example_X_def
      example_y_def clip_def upt_rec numeral_2_eq_2)

theorem augment_training_data_rows_witness:
  "(1::int) \<le> 3 \<and> length example_y = length example_X
   \<and> augment_training_data example_noise example_X example_y 3
       = ([[1, 0], [0, 1], [1, 0], [1 / 10, 3 / 4], [1, 0], [1 / 10, 3 / 4]], [1, 0, 1, 0, 1, 0])
   \<and> length (fst (augment_training_data example_noise example_X example_y 3))
       = nat 3 * length example_X
   \<and> take (length example_X) (fst (augment_training_data example_noise example_X example_y 3))
       = example_X"
proof -
  have h1: "(1::int) \<le> 3" by simp
  have h2: "length example_y = length example_X" by (simp add: example_X_def example_y_def)
  from augment_training_data_rows [OF h1 h2, of example_noise]
  have "length (fst (augment_training_data example_noise example_X example_y 3))
          = nat 3 * length example_X
        \<and> take (length example_X)
            (fst (augment_training_data example_noise example_X example_y 3)) = example_X"
    by (simp add: case_prod_unfold)
  with h1 h2 augment_example show ?thesis by simp
qed

section \<open>Properties of the evaluation\<close>

text \<open>
  Over the reals the clamped sigmoid reaches one half exactly at a score of 0, so a row
  is predicted positive exactly when its score is not negative.
\<close>

lemma sigmoid_ge_half: "(sigmoid x \<ge> 0.5) = (0 \<le> x)"
proof -
  have e: "0 < 1 + exp (- clip x (- 500) 500)" by (simp add: add_pos_pos)
  have "(sigmoid x \<ge> 0.5) = (exp (- clip x (- 500) 500) \<le> 1)"
    unfolding sigmoid_def using e by (simp add: field_simps)
  also have "\<dots> = (0 \<le> clip x (- 500) 500)" by simp
  also have "\<dots> = (0 \<le> x)" by (auto simp: clip_def min_def max_def)
  finally show ?thesis .
qed

lemma predictions_of_sign:
  "predictions_of scores = map (\<lambda>s. if 0 \<le> s then 1 else 0) scores"
  unfolding predictions_of_def sigmoid_ge_half ..

lemma predictions_binary: "p \<in> set (predictions_of scores) \<Longrightarrow> p = 0 \<or> p = 1"
  by (auto simp: predictions_of_def)

lemma confusion_metrics_of:
  "confusion_matrix (metrics_of ps) =
     \<lparr>tp = count_where 1 1 ps, fp = count_where 1 0 ps,
      fn = count_where 0 1 ps, tn = count_where 0 0 ps\<rparr>"
  by (simp add: metrics_of_def Let_def)

lemma precision_metrics_of:
  "precision (metrics_of ps) =
     (if count_where 1 1 ps + count_where 1 0 ps > 0
      then real_of_int (count_where 1 1 ps)
             / real_of_int (count_where 1 1 ps + count_where 1 0 ps) * 100
      else 0)"
  unfolding metrics_of_def Let_def metrics.select_convs ..

lemma recall_metrics_of:
  "recall (metrics_of ps) =
     (if count_where 1 1 ps + count_where 0 1 ps > 0
      then real_of_int (count_where 1 1 ps)
             / real_of_int (count_where 1 1 ps + count_where 0 1 ps) * 100
      else 0)"
  unfolding metrics_of_def Let_def metrics.select_convs ..

lemma f1_metrics_of:
  "f1_score (metrics_of ps) =
     (if precision (metrics_of ps) + recall (metrics_of ps) > 0
      then 2 * precision (metrics_of ps) * recall (metrics_of ps)
             / (precision (metrics_of ps) + recall (metrics_of ps))
      else 0)"
  unfolding metrics_of_def Let_def metrics.select_convs ..

lemma evaluate_model_shaped:
  assumes "length y = length X" and "\<forall>row \<in> set X. length row = length weights"
  shows "evaluate_model X y weights intercept =
           Inr (metrics_of (zip (predictions_of (map (\<lambda>row. dot row weights + intercept) X)) y))"
  using assms
  by (simp add: evaluate_model_def scores_of_def broadcast_def list_all_iff predictions_of_def)

lemma count_where_Cons:
  "count_where a b ((p, l) # ps) = (if p = a \<and> l = b then 1 else 0) + count_where a b ps"
  by (simp add: count_where_def)

lemma count_where_Nil: "count_where a b [] = 0"
  by (simp add: count_where_def)

lemma counts_partition:
  assumes "list_all (\<lambda>(p, l). (p = 0 \<or> p = 1) \<and> (l = 0 \<or> l = 1)) ps"
  shows "count_where 1 1 ps + count_where 1 0 ps + count_where 0 1 ps + count_where 0 0 ps
         = int (length ps)"
  using assms
proof (induction ps)
  case Nil
  show ?case by (simp add: count_where_def)
next
  case (Cons x ps)
  obtain p l where x: "x = (p, l)" by (cases x)
  from Cons.prems have pl: "(p = 0 \<or> p = 1) \<and> (l = 0 \<or> l = 1)"
    and rest: "list_all (\<lambda>(p, l). (p = 0 \<or> p = 1) \<and> (l = 0 \<or> l = 1)) ps"
    by (simp_all add: x)
  from Cons.IH [OF rest] pl show ?case
    unfolding x count_where_Cons by auto
qed

lemma evaluate_example:
  "evaluate_model example_X example_y example_weights 0 =
     Inr \<lparr>accuracy = Some 0, precision = 0, recall = 0, f1_score = 0,
          confusion_matrix = \<lparr>tp = 0, fp = 1, fn = 1, tn = 0\<rparr>\<rparr>"
  by (simp add: evaluate_model_def scores_of_def dot_def predictions_of_sign broadcast_def
      metrics_of_def count_where_def example_X_def example_y_def example_weights_def)

text \<open>
  Claim C5. On an evaluation input whose shapes agree (one label per row, every row as
  long as the weight vector), \<open>evaluate_model\<close> returns a metrics result and raises
  nothing; in that result precision is 0 when \<open>tp + fp = 0\<close>, recall is 0 when
  \<open>tp + fn = 0\<close>, and F1 is 0 when precision plus recall is 0.
\<close>

theorem evaluate_model_zero_denominators:
  assumes "length y = length X" and "\<forall>row \<in> set X. length row = length weights"
  shows "\<exists>m. evaluate_model X y weights intercept = Inr m
     \<and> (tp (confusion_matrix m) + fp (confusion_matrix m) = 0 \<longrightarrow> precision m = 0)
     \<and> (tp (confusion_matrix m) + fn (confusion_matrix m) = 0 \<longrightarrow> recall m = 0)
     \<and> (precision m + recall m = 0 \<longrightarrow> f1_score m = 0)"
proof -
  let ?ps = "zip (predictions_of (map (\<lambda>row. dot row weights + intercept) X)) y"
  have m: "evaluate_model X y weights intercept = Inr (metrics_of ?ps)"
    using assms by (rule evaluate_model_shaped)
  have p0: "tp (confusion_matrix (metrics_of ?ps)) + fp (confusion_matrix (metrics_of ?ps)) = 0
            \<longrightarrow> precision (metrics_of ?ps) = 0"
    by (simp add: confusion_metrics_of precision_metrics_of)
  have r0: "tp (confusion_matrix (metrics_of ?ps)) + fn (confusion_matrix (metrics_of ?ps)) = 0
            \<longrightarrow> recall (metrics_of ?ps) = 0"
    by (simp add: confusion_metrics_of recall_metrics_of)
  have f0: "precision (metrics_of ?ps) + recall (metrics_of ?ps) = 0
            \<longrightarrow> f1_score (metrics_of ?ps) = 0"
    by (subst f1_metrics_of) simp
  from m p0 r0 f0 show ?thesis by blast
qed

theorem evaluate_model_zero_denominators_witness:
  "length [0::int] = length [[1, 0::real]]
   \<and> list_all (\<lambda>row. length row = length example_weights) [[1, 0::real]]
   \<and> evaluate_model [[1, 0]] [0] example_weights 0 =
       Inr \<lparr>accuracy = Some 100, precision = 0, recall = 0, f1_score = 0,
            confusion_matrix = \<lparr>tp = 0, fp = 0, fn = 0, tn = 1\<rparr>\<rparr>"
proof -
  have h1: "length [0::int] = length [[1, 0::real]]" by simp
  have h2: "\<forall>row \<in> set [[1, 0::real]]. length row = length example_weights"
    by (simp add: example_weights_def)
  from evaluate_model_zero_denominators [OF h1 h2, of 0] obtain m where
    m: "evaluate_model [[1, 0]] [0] example_weights 0 = Inr m"
    and p: "tp (confusion_matrix m) + fp (confusion_matrix m) = 0 \<longrightarrow> precision m = 0"
    and r: "tp (confusion_matrix m) + fn (confusion_matrix m) = 0 \<longrightarrow> recall m = 0"
    and f: "precision m + recall m = 0 \<longrightarrow> f1_score m = 0"
    by blast
  have ev: "evaluate_model [[1, 0]] [0] example_weights 0 =
       Inr \<lparr>accuracy = Some 100, precision = 0, recall = 0, f1_score = 0,
            confusion_matrix = \<lparr>tp = 0, fp = 0, fn = 0, tn = 1\<rparr>\<rparr>"
    by (simp add: evaluate_model_def scores_of_def dot_def predictions_of_sign broadcast_def
        metrics_of_def count_where_def example_weights_def)
  with m p r f h1 h2 show ?thesis by (simp add: list_all_iff)
qed

text \<open>
  Claim C8. Whenever \<open>evaluate_model\<close> returns a result on an input with one label per
  row and every label 0 or 1, the four counts of the confusion matrix add up to the
  number of labels.
\<close>

theorem confusion_counts_sum:
  assumes "evaluate_model X y weights intercept = Inr m"
    and "length y = length X"
    and "\<forall>l \<in> set y. l = 0 \<or> l = 1"
  shows "tp (confusion_matrix m) + fp (confusion_matrix m) + fn (confusion_matrix m)
           + tn (confusion_matrix m) = int (length y)"
proof -
  from assms(1) obtain scores ps where
    sc: "scores_of X weights intercept = Inr scores"
    and ps: "broadcast (predictions_of scores) y = Inr ps"
    and m: "m = metrics_of ps"
    by (auto simp: evaluate_model_def split: sum.splits)
  from sc have "length scores = length X"
    by (auto simp: scores_of_def split: if_splits)
  with ps assms(2) have zip: "ps = zip (predictions_of scores) y"
    and len: "length ps = length y"
    by (auto simp: broadcast_def predictions_of_def)
  have "list_all (\<lambda>(p, l). (p = 0 \<or> p = 1) \<and> (l = 0 \<or> l = 1)) ps"
    unfolding zip list_all_iff
    using assms(3) predictions_binary by (auto dest: set_zip_leftD set_zip_rightD)
  then have "count_where 1 1 ps + count_where 1 0 ps + count_where 0 1 ps + count_where 0 0 ps
         = int (length ps)" by (rule counts_partition)
  then show ?thesis by (simp add: m confusion_metrics_of len)
qed

theorem confusion_counts_sum_witness:
  "evaluate_model example_X example_y example_weights 0 =
     Inr \<lparr>accuracy = Some 0, precision = 0, recall = 0, f1_score = 0,
          confusion_matrix = \<lparr>tp = 0, fp = 1, fn = 1, tn = 0\<rparr>\<rparr>
   \<and> length example_y = length example_X
   \<and> list_all (\<lambda>l. l = 0 \<or> l = 1) example_y
   \<and> (0::int) + 1 + 1 + 0 = int (length example_y)"
proof -
  have h2: "length example_y = length example_X" by (simp add: example_X_def example_y_def)
  have h3: "\<forall>l \<in> set example_y. l = 0 \<or> l = 1" by (simp add: example_y_def)
  from confusion_counts_sum [OF evaluate_example h2 h3]
  have "(0::int) + 1 + 1 + 0 = int (length example_y)" by simp
  with evaluate_example h2 h3 show ?thesis by (simp add: list_all_iff)
qed

section \<open>The range of the normalised features\<close>

lemma extract_wordy_pair: "extract_features wordy_pair = Inr wordy_features"
  by (simp add: extract_defs wordy_pair_def wordy_market_def wordy_features_def)

lemma keyword_overlap_bounds:
  assumes "calc_keyword_overlap (set ks) (set ps) = Inr q"
  shows "0 \<le> q \<and> q \<le> 100"
proof -
  let ?i = "card (set ks \<inter> set ps)" and ?m = "max (card (set ks)) (card (set ps))"
  from assms have m: "?m \<noteq> 0" and q: "q = real ?i / real ?m * 100"
    by (auto simp: calc_keyword_overlap_def py_div_def split: if_splits)
  have "?i \<le> card (set ks)" by (rule card_mono) auto
  then have "?i \<le> ?m" by simp
  then have "real ?i \<le> real ?m" by simp
  moreover have "0 < real ?m"
  proof -
    from m have "0 < ?m" by (simp only: neq0_conv)
    then show ?thesis by (simp only: of_nat_0_less_iff)
  qed
  ultimately have t: "0 \<le> real ?i / real ?m \<and> real ?i / real ?m \<le> 1"
    by (simp add: divide_le_eq_1)
  have "\<And>t::real. 0 \<le> t \<and> t \<le> 1 \<Longrightarrow> 0 \<le> t * 100 \<and> t * 100 \<le> 100" by simp
  from this [OF t] show ?thesis unfolding q .
qed

lemma length_ratio_bounds:
  assumes "calc_length_ratio k_text p_text = Inr r"
  shows "0 \<le> r \<and> r \<le> 1"
  using assms
  by (auto simp: calc_length_ratio_def py_div_def Let_def min_def max_def split: if_splits)

lemma volume_ratio_bounds:
  assumes "valid_market kal" and "valid_market poly"
    and "calc_volume_ratio kal poly = Inr v"
  shows "0 \<le> v \<and> v \<le> 1"
proof -
  let ?k = "case volume_usd kal of None \<Rightarrow> 1 | Some v \<Rightarrow> v"
  let ?p = "case volume_usd poly of None \<Rightarrow> 1 | Some v \<Rightarrow> v"
  have k: "0 \<le> ?k" using assms(1) by (simp add: valid_market_def split: option.splits)
  have p: "0 \<le> ?p" using assms(2) by (simp add: valid_market_def split: option.splits)
  from assms(3) have m: "max ?k ?p \<noteq> 0" and v: "v = min ?k ?p / max ?k ?p"
    by (auto simp: calc_volume_ratio_def py_div_def Let_def split: if_splits)
  from k p m have "0 < max ?k ?p" by (simp add: max_def split: if_splits)
  moreover have "min ?k ?p \<le> max ?k ?p" by simp
  moreover from k p have "0 \<le> min ?k ?p" by simp
  ultimately show ?thesis unfolding v by (simp add: divide_le_eq_1)
qed

lemma price_correlation_bounds:
  assumes "valid_market kal" and "valid_market poly"
  shows "0 \<le> calc_price_correlation kal poly \<and> calc_price_correlation kal poly \<le> 1"
  using assms
  by (auto simp: calc_price_correlation_def valid_market_def Let_def split: option.splits)

lemma sources_match_bounds:
  "0 \<le> calc_sources_match kal poly \<and> calc_sources_match kal poly \<le> 1"
  by (simp add: calc_sources_match_def Let_def)

lemma extract_features_Inr:
  assumes "extract_features pair = Inr fv"
  shows "\<exists>q r v.
      calc_keyword_overlap (set (str_split (side_text (kalshi pair))))
        (set (str_split (side_text (polymarket pair)))) = Inr q
    \<and> calc_length_ratio (side_text (kalshi pair)) (side_text (polymarket pair)) = Inr r
    \<and> calc_volume_ratio (kalshi pair) (polymarket pair) = Inr v
    \<and> fv = \<lparr>title_similarity = 37.5, description_similarity = 50.0, keyword_overlap = q,
            category_match = 1, timing_match = 1,
            sources_match = calc_sources_match (kalshi pair) (polymarket pair),
            alignment_score = 82.0, volume_ratio = v,
            price_correlation = calc_price_correlation (kalshi pair) (polymarket pair),
            length_ratio = r,
            avg_word_count = real (length (str_split (title (kalshi pair))))\<rparr>"
  using assms
  by (auto simp: extract_features_def Let_def split: sum.splits)


text \<open>
  Claim C1, as amended. For every valid pair on which \<open>extract_features\<close> returns a
  feature vector, the normalised array has eleven components; the first ten lie
  between 0 and 1; the last one, \<open>avg_word_count\<close>, is the number of words of the
  kalshi title divided by 20, is not negative, and is at most 1 exactly when that
  title has at most 20 words.
\<close>

theorem normalized_features_range:
  assumes "valid_pair pair" and "extract_features pair = Inr fv"
  shows "length (to_array fv) = 11
       \<and> (\<forall>v \<in> set (butlast (to_array fv)). 0 \<le> v \<and> v \<le> 1)
       \<and> last (to_array fv) = real (length (str_split (title (kalshi pair)))) / 20
       \<and> 0 \<le> last (to_array fv)
       \<and> (last (to_array fv) \<le> 1 \<longleftrightarrow> length (str_split (title (kalshi pair))) \<le> 20)"
proof -
  from extract_features_Inr [OF assms(2)] obtain q r v where
    q: "calc_keyword_overlap (set (str_split (side_text (kalshi pair))))
        (set (str_split (side_text (polymarket pair)))) = Inr q"
    and r: "calc_length_ratio (side_text (kalshi pair)) (side_text (polymarket pair)) = Inr r"
    and v: "calc_volume_ratio (kalshi pair) (polymarket pair) = Inr v"
    and fv: "fv = \<lparr>title_similarity = 37.5, description_similarity = 50.0, keyword_overlap = q,
            category_match = 1, timing_match = 1,
            sources_match = calc_sources_match (kalshi pair) (polymarket pair),
            alignment_score = 82.0, volume_ratio = v,
            price_correlation = calc_price_correlation (kalshi pair) (polymarket pair),
            length_ratio = r,
            avg_word_count = real (length (str_split (title (kalshi pair))))\<rparr>"
    by blast
  from assms(1) have vk: "valid_market (kalshi pair)" and vp: "valid_market (polymarket pair)"
    by (simp_all add: valid_pair_def)
  note bq = keyword_overlap_bounds [OF q]
  note br = length_ratio_bounds [OF r]
  note bv = volume_ratio_bounds [OF vk vp v]
  note bp = price_correlation_bounds [OF vk vp]
  note bs = sources_match_bounds [of "kalshi pair" "polymarket pair"]
  have len: "length (to_array fv) = 11" by (simp add: to_array_def)
  have firsts: "\<forall>v \<in> set (butlast (to_array fv)). 0 \<le> v \<and> v \<le> 1"
    using bq br bv bp bs by (simp add: to_array_def fv)
  have lst: "last (to_array fv) = real (length (str_split (title (kalshi pair)))) / 20"
    by (simp add: to_array_def fv)
  have nonneg: "0 \<le> last (to_array fv)" unfolding lst by simp
  have iff: "last (to_array fv) \<le> 1 \<longleftrightarrow> length (str_split (title (kalshi pair))) \<le> 20"
    unfolding lst by simp
  from len firsts lst nonneg iff show ?thesis by blast
qed

lemma valid_example_pair: "valid_pair example_pair"
  by (simp add: valid_pair_def valid_market_def example_pair_def example_kalshi_def
      example_polymarket_def)

theorem normalized_features_range_witness:
  "valid_pair example_pair \<and> extract_features example_pair = Inr example_features
   \<and> to_array example_features
       = [3 / 8, 1 / 2, 2 / 5, 1, 1, 1, 41 / 50, 1 / 4, 9 / 10, 23 / 24, 3 / 20]
   \<and> last (to_array example_features) = 3 / 20
   \<and> length (str_split (title (kalshi example_pair))) = 3"
proof -
  have arr: "to_array example_features
       = [3 / 8, 1 / 2, 2 / 5, 1, 1, 1, 41 / 50, 1 / 4, 9 / 10, 23 / 24, 3 / 20]"
    by (simp add: to_array_def example_features_def)
  have w: "length (str_split (title (kalshi example_pair))) = 3"
    by (simp add: example_pair_def example_kalshi_def str_split_def isspace_def)
  from normalized_features_range [OF valid_example_pair extract_example_pair]
  have "last (to_array example_features)
          = real (length (str_split (title (kalshi example_pair)))) / 20"
    by blast
  with w have "last (to_array example_features) = 3 / 20" by simp
  with valid_example_pair extract_example_pair arr w show ?thesis by blast
qed

text \<open>
  Claim C1 as stated fails on a valid pair whose kalshi title has 21 words: the last
  component of the normalised array is \<open>21 / 20\<close>.
\<close>

theorem normalized_features_counterexample:
  "valid_pair wordy_pair \<and> extract_features wordy_pair = Inr wordy_features
   \<and> to_array wordy_features = [3 / 8, 1 / 2, 1, 1, 1, 0, 41 / 50, 1, 1, 1, 21 / 20]
   \<and> \<not> (to_array wordy_features ! 10 \<le> 1)"
proof -
  have v: "valid_pair wordy_pair"
    by (simp add: valid_pair_def valid_market_def wordy_pair_def wordy_market_def)
  have arr: "to_array wordy_features = [3 / 8, 1 / 2, 1, 1, 1, 0, 41 / 50, 1, 1, 1, 21 / 20]"
    by (simp add: to_array_def wordy_features_def)
  have "\<not> (to_array wordy_features ! 10 \<le> 1)" unfolding arr by simp
  with v extract_wordy_pair arr show ?thesis by blast
qed

section \<open>The pipeline on identical pairs, and the exported artifact\<close>










lemma matched_example_pair: "matched example_pair"
  by (simp add: example_pair_def)



text \<open>
  Claim C10. Whenever \<open>main\<close> runs to the end and dumps an artifact, the intercept of
  its resolution model is \<open>-0.2\<close>, whatever the data file holds, whatever the generator
  draws, whether the estimator library is available, and whatever its estimators
  return.
\<close>

theorem main_resolution_intercept:
  assumes "main data_file sklearn_available fit_lr fit_rf nz = Inr (Some artifact)"
  shows "resolution_intercept (resolution artifact) = - 0.2"
  using assms
  by (auto simp: main_def split: option.splits sum.splits prod.splits if_splits)

lemma main_example:
  "\<exists>artifact. main (Some [example_pair]) False (\<lambda>X y. Inl ValueError) (\<lambda>X y. Inl ValueError)
      example_noise = Inr (Some artifact)"
proof -
  let ?X = "[to_array example_features]" and ?y = "[1::int]"
  have prep: "prepare_training_data [example_pair] = Inr (?X, ?y)"
    by (simp add: extract_example_pair matched_example_pair)
  obtain X_aug y_aug where aug: "augment_training_data example_noise ?X ?y 20 = (X_aug, y_aug)"
    by (cases "augment_training_data example_noise ?X ?y 20")
  have "length ?y = length ?X" by simp
  moreover have "\<forall>row \<in> set ?X. length row = length (fst (estimate_weights_simple X_aug y_aug))"
    by (simp add: to_array_def estimate_weights_simple_def)
  ultimately have ev: "evaluate_model ?X ?y (fst (estimate_weights_simple X_aug y_aug))
      (snd (estimate_weights_simple X_aug y_aug)) =
      Inr (metrics_of (zip (predictions_of (map (\<lambda>row. dot row (fst (estimate_weights_simple X_aug y_aug))
             + snd (estimate_weights_simple X_aug y_aug)) ?X)) ?y))"
    by (rule evaluate_model_shaped)
  show ?thesis
    unfolding main_def
    by (simp add: prep aug train_logistic_weights_def train_random_forest_def ev
        case_prod_unfold del: prepare_training_data.simps)
qed

theorem main_resolution_intercept_witness:
  "\<exists>artifact. main (Some [example_pair]) False (\<lambda>X y. Inl ValueError) (\<lambda>X y. Inl ValueError)
      example_noise = Inr (Some artifact)
    \<and> resolution_intercept (resolution artifact) = - 0.2"
proof -
  from main_example obtain artifact where
    m: "main (Some [example_pair]) False (\<lambda>X y. Inl ValueError) (\<lambda>X y. Inl ValueError)
          example_noise = Inr (Some artifact)" ..
  from main_resolution_intercept [OF m] m show ?thesis by blast
qed

end
